theory Spec2Isabelle
  imports Complex_Main "HOL-Library.Multiset"
begin

section \<open>JavaScript values\<close>

text \<open>
  The services exchange JSON documents and compute on JavaScript numbers. A finite
  double is modelled by the rational number it denotes (rounding and overflow to
  an infinity are not modelled); \<open>NaN\<close> is kept, since the code tests for it.
  A field that may hold any JSON scalar, or be absent, is a \<open>jsval\<close>;
  \<open>JUndefined\<close> is the absent field. Fields that the data model types as strings
  are \<open>string option\<close>, \<open>None\<close> for an absent or null field. Strings are ASCII.
  The constants that a service reads from its environment at start-up are finite
  numbers. The bus and the stores always answer: a failed read or write of Redis
  or Mongo is not modelled.
\<close>

datatype jsnum = Fin rat | NaN

datatype jsval = JUndefined | JNull | JBool bool | JNum rat | JStr string

datatype js_error = ReferenceError | TypeError | SyntaxError

text \<open>\<open>Number(v)\<close>. The conversion of a string to a number is a parameter \<open>sn\<close>.\<close>

fun toNumber :: "(string \<Rightarrow> jsnum) \<Rightarrow> jsval \<Rightarrow> jsnum" where
  "toNumber sn JUndefined = NaN"
| "toNumber sn JNull = Fin 0"
| "toNumber sn (JBool b) = Fin (if b then 1 else 0)"
| "toNumber sn (JNum r) = Fin r"
| "toNumber sn (JStr s) = sn s"

text \<open>Truthiness of a value (\<open>!!v\<close>) and of a number.\<close>

fun truthy :: "jsval \<Rightarrow> bool" where
  "truthy JUndefined = False"
| "truthy JNull = False"
| "truthy (JBool b) = b"
| "truthy (JNum r) = (r \<noteq> 0)"
| "truthy (JStr s) = (s \<noteq> [])"

fun truthy_num :: "jsnum \<Rightarrow> bool" where
  "truthy_num (Fin r) = (r \<noteq> 0)"
| "truthy_num NaN = False"

fun isFinite :: "jsnum \<Rightarrow> bool" where
  "isFinite (Fin r) = True"
| "isFinite NaN = False"

text \<open>Arithmetic and comparison: \<open>NaN\<close> is absorbing, and compares false.\<close>

fun num_add :: "jsnum \<Rightarrow> jsnum \<Rightarrow> jsnum" where
  "num_add (Fin a) (Fin b) = Fin (a + b)"
| "num_add _ _ = NaN"

fun num_sub :: "jsnum \<Rightarrow> jsnum \<Rightarrow> jsnum" where
  "num_sub (Fin a) (Fin b) = Fin (a - b)"
| "num_sub _ _ = NaN"

fun num_mul :: "jsnum \<Rightarrow> jsnum \<Rightarrow> jsnum" where
  "num_mul (Fin a) (Fin b) = Fin (a * b)"
| "num_mul _ _ = NaN"

fun num_min :: "jsnum \<Rightarrow> jsnum \<Rightarrow> jsnum" where
  "num_min (Fin a) (Fin b) = Fin (min a b)"
| "num_min _ _ = NaN"

fun num_gt :: "jsnum \<Rightarrow> jsnum \<Rightarrow> bool" where
  "num_gt (Fin a) (Fin b) = (a > b)"
| "num_gt _ _ = False"

fun num_ge :: "jsnum \<Rightarrow> jsnum \<Rightarrow> bool" where
  "num_ge (Fin a) (Fin b) = (a \<ge> b)"
| "num_ge _ _ = False"

fun num_lt :: "jsnum \<Rightarrow> jsnum \<Rightarrow> bool" where
  "num_lt (Fin a) (Fin b) = (a < b)"
| "num_lt _ _ = False"

text \<open>\<open>a || b\<close> on values, and \<open>s || ''\<close> on an optional string.\<close>

definition js_or :: "jsval \<Rightarrow> jsval \<Rightarrow> jsval" where
  "js_or a b = (if truthy a then a else b)"

definition str_or_empty :: "string option \<Rightarrow> string" where
  "str_or_empty s = (case s of None \<Rightarrow> [] | Some t \<Rightarrow> t)"

text \<open>\<open>String.prototype.toUpperCase\<close> on ASCII.\<close>

definition upper_char :: "char \<Rightarrow> char" where
  "upper_char c =
     (let n = (of_char c :: nat) in if 97 \<le> n \<and> n \<le> 122 then char_of (n - 32) else c)"

definition toUpperCase :: "string \<Rightarrow> string" where
  "toUpperCase s = map upper_char s"

section \<open>Data model\<close>

record leg =
  exchange :: "string option"
  instrumentId :: "string option"
  side :: "string option"
  estPx :: jsval
  leg_size :: jsval
  feeBps :: jsval

section \<open>Router-executor: protective leg first\<close>

text \<open>\<open>Array.prototype.findIndex\<close>; \<open>None\<close> is the result \<open>-1\<close>.\<close>

fun findIndex :: "('a \<Rightarrow> bool) \<Rightarrow> 'a list \<Rightarrow> nat option" where
  "findIndex p [] = None"
| "findIndex p (x # xs) =
     (if p x then Some 0 else (case findIndex p xs of None \<Rightarrow> None | Some i \<Rightarrow> Some (Suc i)))"

text \<open>\<open>legs.filter((_, i) => i !== idx)\<close>\<close>

definition filter_index_ne :: "nat \<Rightarrow> 'a list \<Rightarrow> 'a list" where
  "filter_index_ne idx xs = map snd (filter (\<lambda>(i, x). i \<noteq> idx) (enumerate 0 xs))"

text \<open>The predicate of \<open>protectiveFirst\<close>: \<open>(l?.side || '').toUpperCase() === 'SELL'\<close>.\<close>

definition is_sell :: "'a leg_scheme \<Rightarrow> bool" where
  "is_sell l = (toUpperCase (str_or_empty (side l)) = ''SELL'')"

definition protectiveFirst :: "'a leg_scheme list \<Rightarrow> 'a leg_scheme list" where
  "protectiveFirst legs =
     (case findIndex is_sell legs of
        Some idx \<Rightarrow> (legs ! idx) # filter_index_ne idx legs
      | None \<Rightarrow> legs)"


section \<open>Order simulator\<close>

text \<open>
  An Order as the simulator reads it from \<open>orders.new\<close>. The executor builds the
  payload as \<open>{ corrId, legIndex, tif, ...leg }\<close>, so the leg's fields are part of
  it. \<open>None\<close> for the payload is an entry without one.
\<close>

record order_payload =
  op_corrId :: "string option"
  op_legIndex :: "nat option"
  op_tif :: "string option"
  op_leg :: leg
  op_mode :: "string option"

record order =
  ord_id :: "string option"
  ord_ts :: rat
  ord_payload :: "order_payload option"

record fill_payload =
  fp_corrId :: "string option"
  fp_legIndex :: "nat option"
  fp_exchange :: "string option"
  fp_instrumentId :: "string option"
  fp_side :: "string option"
  fp_px :: jsval
  fp_requestedSize :: jsval
  fp_filledSize :: jsval
  fp_mode :: "string option"

record fill =
  fill_id :: "string option"
  fill_ts :: jsval
  fill_payload :: "fill_payload option"

text \<open>\<open>JSON.stringify\<close> writes a finite number as itself and \<open>NaN\<close> as \<open>null\<close>.\<close>

fun json_of_num :: "jsnum \<Rightarrow> jsval" where
  "json_of_num (Fin r) = JNum r"
| "json_of_num NaN = JNull"

text \<open>\<open>v ?? d\<close>\<close>

definition nullish_or :: "jsval \<Rightarrow> jsval \<Rightarrow> jsval" where
  "nullish_or v d = (if v = JUndefined \<or> v = JNull then d else v)"

text \<open>\<open>ord?.payload?.size\<close>\<close>

definition order_raw_size :: "order \<Rightarrow> jsval" where
  "order_raw_size ord = (case ord_payload ord of None \<Rightarrow> JUndefined | Some p \<Rightarrow> leg_size (op_leg p))"

text \<open>\<open>Number(ord?.payload?.size ?? 1) || 1\<close>\<close>

definition order_size :: "(string \<Rightarrow> jsnum) \<Rightarrow> order \<Rightarrow> jsnum" where
  "order_size sn ord =
     (let n = toNumber sn (nullish_or (order_raw_size ord) (JNum 1))
      in if truthy_num n then n else Fin 1)"

record simulator =
  sim_fills :: "fill list"
  sim_fillsCounter :: nat
  sim_acked :: "string list"

text \<open>The Fill object that \<open>emitFillFromOrder\<close> builds, as it is read back from the stream.\<close>

definition fill_of_order :: "(string \<Rightarrow> jsnum) \<Rightarrow> rat \<Rightarrow> order \<Rightarrow> fill" where
  "fill_of_order sn now ord =
     (let sz = order_size sn ord; p = ord_payload ord in
      \<lparr> fill_id = ord_id ord,
        fill_ts = JNum now,
        fill_payload = Some
          \<lparr> fp_corrId = (case p of None \<Rightarrow> None | Some q \<Rightarrow> op_corrId q),
            fp_legIndex = (case p of None \<Rightarrow> None | Some q \<Rightarrow> op_legIndex q),
            fp_exchange = (case p of None \<Rightarrow> None | Some q \<Rightarrow> exchange (op_leg q)),
            fp_instrumentId = (case p of None \<Rightarrow> None | Some q \<Rightarrow> instrumentId (op_leg q)),
            fp_side = (case p of None \<Rightarrow> None | Some q \<Rightarrow> side (op_leg q)),
            fp_px = (case p of None \<Rightarrow> JUndefined | Some q \<Rightarrow> estPx (op_leg q)),
            fp_requestedSize = json_of_num sz,
            fp_filledSize = json_of_num sz,
            fp_mode = (case p of None \<Rightarrow> None | Some q \<Rightarrow> op_mode q) \<rparr> \<rparr>)"

definition emitFillFromOrder :: "(string \<Rightarrow> jsnum) \<Rightarrow> rat \<Rightarrow> simulator \<Rightarrow> order \<Rightarrow> simulator" where
  "emitFillFromOrder sn now s ord =
     s\<lparr> sim_fills := sim_fills s @ [fill_of_order sn now ord],
        sim_fillsCounter := Suc (sim_fillsCounter s) \<rparr>"

text \<open>
  The body of the simulator's loop for one entry of \<open>orders.new\<close>: \<open>None\<close> is an
  entry that \<open>readJsonFromFields\<close> could not parse. Every entry is acknowledged.
\<close>

definition sim_step :: "(string \<Rightarrow> jsnum) \<Rightarrow> rat \<Rightarrow> simulator \<Rightarrow> string \<times> order option \<Rightarrow> simulator" where
  "sim_step sn now s m =
     (case snd m of
        None \<Rightarrow> s\<lparr> sim_acked := sim_acked s @ [fst m] \<rparr>
      | Some ord \<Rightarrow>
          (let s' = emitFillFromOrder sn now s ord
           in s'\<lparr> sim_acked := sim_acked s' @ [fst m] \<rparr>))"

section \<open>Opportunities and trades\<close>

record costs =
  fees :: jsval
  slippage :: jsval
  borrow :: jsval

record opp_payload =
  paper :: jsval
  edgeBps :: jsval
  legs :: "leg list option"
  opp_costs :: "costs option"

record risk_policy =
  pol_EDGE_MIN_BPS :: rat
  pol_NET_MIN_BPS :: rat
  pol_MAX_TOTAL_SIZE :: rat
  pol_REQUIRE_BOTH_SIDES :: bool

record risk_block =
  rk_reason :: string
  rk_netBps :: "jsnum option"
  rk_totalFeesLikeBps :: "jsnum option"
  rk_policy :: risk_policy

text \<open>
  An Opportunity as parsed from a stream entry. Fields that no service reads are
  the extension part of the record, which \<open>{ ...opp }\<close> copies.
\<close>

record opportunity =
  opp_corrId :: "string option"
  opp_id :: "string option"
  opp_ts :: jsval
  opp_approved :: jsval
  opp_risk :: "risk_block option"
  payload :: "opp_payload option"

text \<open>
  A Trade document. The executor's object literal has all seven properties; a
  property that a literal does not have is \<open>None\<close> (\<open>JUndefined\<close> for
  \<open>approved\<close>).
\<close>

record 'l trade =
  t_ts :: jsval
  t_mode :: string
  t_legs :: "'l list"
  t_realizedPnl :: rat
  t_taken :: "bool option"
  t_approved :: jsval
  t_source :: "string option"

section \<open>Router-executor\<close>

record inflight_entry =
  ie_opp :: opportunity
  ie_legs :: "leg list"
  ie_fills :: "fill option list"
  ie_startedTs :: rat

text \<open>
  The process state of the executor together with the part of the bus it touches.
  A stream is the list of its entries not yet delivered to group \<open>executor\<close>;
  an entry is its id and the parsed \<open>data\<close> field, \<open>None\<close> when
  \<open>JSON.parse\<close> throws on it.
\<close>

record executor =
  AUTO_TRADE :: bool
  MODE :: string
  oppReady :: bool
  fillsReady :: bool
  inflight :: "string \<rightharpoonup> inflight_entry"
  kv_autoTrade :: "string option"
  kv_mode :: "string option"
  arb_opportunities :: "(string \<times> opportunity option) list"
  arb_approved :: "(string \<times> opportunity option) list"
  orders_fills :: "(string \<times> fill option) list"
  orders_new :: "order list"
  arb_trades :: "leg trade list"
  acked :: "(string \<times> string) list"
  uuid_next :: nat
  execCounter :: nat
  legCounter :: nat
  tradeCounter :: nat

text \<open>
  What the executor's module takes from outside: the constant
  \<open>MIN_REALIZED_PNL\<close>, the clock, \<open>uuidv4\<close> (the n-th identifier it returns)
  and the conversion of strings to numbers.
\<close>

record exec_env =
  MIN_REALIZED_PNL :: rat
  Date_now :: rat
  uuidv4 :: "nat \<Rightarrow> string"
  str_num :: "string \<Rightarrow> jsnum"

subsection \<open>Toggles\<close>

definition lower_char :: "char \<Rightarrow> char" where
  "lower_char c =
     (let n = (of_char c :: nat) in if 65 \<le> n \<and> n \<le> 90 then char_of (n + 32) else c)"

definition toLowerCase :: "string \<Rightarrow> string" where
  "toLowerCase s = map lower_char s"

definition is_space :: "char \<Rightarrow> bool" where
  "is_space c = ((of_char c :: nat) \<in> {9, 10, 11, 12, 13, 32})"

definition trim :: "string \<Rightarrow> string" where
  "trim s = rev (dropWhile is_space (rev (dropWhile is_space s)))"

text \<open>\<open>parseBool\<close> on a string, the only kind of value the key-value store returns.\<close>

definition parseBool :: "string \<Rightarrow> bool \<Rightarrow> bool" where
  "parseBool v def = (toLowerCase (trim v) \<in> set [''true'', ''1'', ''yes'', ''on''])"

definition tradingEnabled :: "executor \<Rightarrow> bool" where
  "tradingEnabled s = AUTO_TRADE s"

definition refreshToggles :: "executor \<Rightarrow> executor" where
  "refreshToggles s =
     (let s1 =
        (case kv_autoTrade s of
           None \<Rightarrow> s
         | Some raw \<Rightarrow>
             (let nxt = parseBool raw (AUTO_TRADE s) in
              if nxt \<noteq> AUTO_TRADE s then
                (let wasOn = AUTO_TRADE s; s' = s\<lparr> AUTO_TRADE := nxt \<rparr>
                 in if wasOn \<and> \<not> AUTO_TRADE s' then s'\<lparr> inflight := Map.empty \<rparr> else s')
              else s))
      in (case kv_mode s1 of
            None \<Rightarrow> s1
          | Some md \<Rightarrow>
              if md = ''live'' \<or> md = ''paper''
              then (if md \<noteq> MODE s1 then s1\<lparr> MODE := md \<rparr> else s1)
              else s1))"

text \<open>The body of a \<open>POST /toggles\<close> request.\<close>

record toggles_body =
  tb_autoTrade :: jsval
  tb_mode :: "string option"

definition post_toggles :: "executor \<Rightarrow> toggles_body \<Rightarrow> executor" where
  "post_toggles s body =
     (let s1 =
        (if tb_autoTrade body \<noteq> JUndefined
         then s\<lparr> kv_autoTrade := Some (if truthy (tb_autoTrade body) then ''true'' else ''false''),
                 AUTO_TRADE := truthy (tb_autoTrade body) \<rparr>
         else s)
      in (case tb_mode body of
            None \<Rightarrow> s1
          | Some mode \<Rightarrow>
              if mode \<noteq> [] \<and> (mode = ''live'' \<or> mode = ''paper'')
              then s1\<lparr> kv_mode := Some mode, MODE := mode \<rparr>
              else s1))"

subsection \<open>Orders\<close>

definition sendOrder ::
  "exec_env \<Rightarrow> executor \<Rightarrow> string \<Rightarrow> nat \<Rightarrow> leg \<Rightarrow> string option \<times> executor" where
  "sendOrder env s corrId legIndex l =
     (if \<not> tradingEnabled s then (None, s)
      else
        (let orderId = uuidv4 env (uuid_next s);
             msg = \<lparr> ord_id = Some orderId, ord_ts = Date_now env,
                     ord_payload = Some \<lparr> op_corrId = Some corrId, op_legIndex = Some legIndex,
                                           op_tif = Some ''IOC'', op_leg = l, op_mode = None \<rparr> \<rparr>
         in (Some orderId,
             s\<lparr> orders_new := orders_new s @ [msg],
                uuid_next := Suc (uuid_next s),
                legCounter := Suc (legCounter s) \<rparr>)))"

subsection \<open>Realised PnL and trade emission\<close>

definition num_half :: "jsnum \<Rightarrow> jsnum" where
  "num_half n = (case n of Fin a \<Rightarrow> Fin (a / 2) | NaN \<Rightarrow> NaN)"

text \<open>\<open>String(l?.side).toUpperCase() === w\<close>: an absent side prints as \<open>undefined\<close>.\<close>

definition side_is :: "string \<Rightarrow> 'a leg_scheme \<Rightarrow> bool" where
  "side_is w l = (case side l of None \<Rightarrow> False | Some s \<Rightarrow> toUpperCase s = w)"

text \<open>One round of the loop over \<open>fills\<close>; a hole of the array reads as \<open>undefined\<close>.\<close>

definition pnl_step :: "(string \<Rightarrow> jsnum) \<Rightarrow> rat \<times> rat \<Rightarrow> fill option \<Rightarrow> rat \<times> rat" where
  "pnl_step sn acc f =
     (let p = (case f of None \<Rightarrow> None | Some x \<Rightarrow> fill_payload x);
          sd = toUpperCase (str_or_empty (case p of None \<Rightarrow> None | Some q \<Rightarrow> fp_side q));
          px = toNumber sn (case p of None \<Rightarrow> JUndefined | Some q \<Rightarrow> fp_px q);
          sz = toNumber sn (js_or (case p of None \<Rightarrow> JUndefined | Some q \<Rightarrow> fp_filledSize q) (JNum 0))
      in (case (px, sz) of
            (Fin a, Fin b) \<Rightarrow>
              (let sgn = (if sd = ''SELL'' then 1 else if sd = ''BUY'' then - 1 else 0)
               in (fst acc + sgn * a * b, snd acc + b))
          | _ \<Rightarrow> acc))"

definition cost_num :: "(string \<Rightarrow> jsnum) \<Rightarrow> opportunity \<Rightarrow> (costs \<Rightarrow> jsval) \<Rightarrow> jsnum" where
  "cost_num sn opp field =
     toNumber sn (js_or (case payload opp of None \<Rightarrow> JUndefined
                         | Some p \<Rightarrow> (case opp_costs p of None \<Rightarrow> JUndefined | Some c \<Rightarrow> field c))
                        (JNum 0))"

definition computePnlFromFills :: "(string \<Rightarrow> jsnum) \<Rightarrow> opportunity \<Rightarrow> fill option list \<Rightarrow> rat" where
  "computePnlFromFills sn opp fs =
     (let lgs = (case payload opp of None \<Rightarrow> []
                 | Some p \<Rightarrow> (case legs p of None \<Rightarrow> [] | Some ls \<Rightarrow> ls))
      in if fs = [] then 0
         else
           (let acc = foldl (pnl_step sn) (0, 0) fs;
                gross = fst acc; qty = snd acc;
                mid = (case (find (side_is ''BUY'') lgs, find (side_is ''SELL'') lgs) of
                         (Some buy, Some sell) \<Rightarrow>
                           if estPx buy \<noteq> JUndefined \<and> estPx buy \<noteq> JNull
                              \<and> estPx sell \<noteq> JUndefined \<and> estPx sell \<noteq> JNull
                           then Some (num_half (num_add (toNumber sn (estPx buy)) (toNumber sn (estPx sell))))
                           else None
                       | _ \<Rightarrow> None);
                feesLikeAbs = num_add (num_add (cost_num sn opp fees) (cost_num sn opp slippage))
                                      (cost_num sn opp borrow);
                totalFees = (case mid of
                               Some m \<Rightarrow> if truthy_num m \<and> qty \<noteq> 0
                                         then num_mul feesLikeAbs (num_mul (Fin qty) m) else Fin 0
                             | None \<Rightarrow> Fin 0);
                realized = num_sub (Fin gross) totalFees
            in (case realized of Fin r \<Rightarrow> r | NaN \<Rightarrow> 0)))"

text \<open>
  \<open>emitTrade\<close>. Past the two guards the function evaluates the object literal of the
  trade, whose shorthand property \<open>approved\<close> reads a variable of that name. Neither
  the function nor the module declares one, so the evaluation throws a
  \<open>ReferenceError\<close> before anything is written to \<open>arb.trades\<close>.
\<close>

definition emitTrade ::
  "exec_env \<Rightarrow> executor \<Rightarrow> opportunity \<Rightarrow> fill option list \<Rightarrow> js_error + executor" where
  "emitTrade env s opp fs =
     (if \<not> tradingEnabled s then Inr s
      else
        (let realizedPnl = computePnlFromFills (str_num env) opp fs
         in if \<not> (realizedPnl > MIN_REALIZED_PNL env) then Inr s
            else Inl ReferenceError))"

subsection \<open>Consumers\<close>

definition xack :: "string \<Rightarrow> string \<Rightarrow> executor \<Rightarrow> executor" where
  "xack stream i s = s\<lparr> acked := acked s @ [(stream, i)] \<rparr>"

text \<open>\<open>opp.corrId || opp.id || uuidv4()\<close>\<close>

definition corr_of :: "exec_env \<Rightarrow> executor \<Rightarrow> opportunity \<Rightarrow> string \<times> executor" where
  "corr_of env s opp =
     (if str_or_empty (opp_corrId opp) \<noteq> [] then (str_or_empty (opp_corrId opp), s)
      else if str_or_empty (opp_id opp) \<noteq> [] then (str_or_empty (opp_id opp), s)
      else (uuidv4 env (uuid_next s), s\<lparr> uuid_next := Suc (uuid_next s) \<rparr>))"

text \<open>The body of the loop of \<open>consumeOpportunities\<close> for one entry.\<close>

definition handleOpportunity ::
  "exec_env \<Rightarrow> string \<Rightarrow> executor \<Rightarrow> string \<times> opportunity option \<Rightarrow> executor" where
  "handleOpportunity env source s m =
     (case snd m of
        None \<Rightarrow> xack source (fst m) s
      | Some opp \<Rightarrow>
          (let s1 = s\<lparr> execCounter := Suc (execCounter s) \<rparr>;
               cs = corr_of env s1 opp;
               corrId = fst cs; s2 = snd cs;
               lgs = protectiveFirst (case payload opp of None \<Rightarrow> []
                                      | Some p \<Rightarrow> (case legs p of None \<Rightarrow> [] | Some ls \<Rightarrow> ls));
               s3 = s2\<lparr> inflight := (inflight s2)(corrId \<mapsto>
                          \<lparr> ie_opp = opp, ie_legs = lgs, ie_fills = [], ie_startedTs = Date_now env \<rparr>) \<rparr>;
               s4 = (case lgs of [] \<Rightarrow> s3 | l # _ \<Rightarrow> snd (sendOrder env s3 corrId 0 l))
           in xack source (fst m) s4))"

definition consumeOpportunities :: "exec_env \<Rightarrow> executor \<Rightarrow> executor" where
  "consumeOpportunities env s =
     (if \<not> tradingEnabled s then s
      else if \<not> oppReady s then s
      else
        (let source = ''arb.opportunities'';
             res = take 20 (arb_opportunities s)
         in if res = [] then s
            else foldl (handleOpportunity env source)
                   (s\<lparr> arb_opportunities := drop 20 (arb_opportunities s) \<rparr>) res))"

text \<open>\<open>st.fills[legIndex] = fill\<close>: writing past the end leaves holes.\<close>

definition set_fill :: "fill option list \<Rightarrow> nat option \<Rightarrow> fill \<Rightarrow> fill option list" where
  "set_fill fs legIndex f =
     (case legIndex of
        None \<Rightarrow> fs
      | Some i \<Rightarrow> if i < length fs then fs[i := Some f]
                  else fs @ replicate (i - length fs) None @ [Some f])"

text \<open>Which branch the loop body of \<open>consumeFills\<close> took for an entry.\<close>

datatype fill_outcome = ParseFailed | NoInflight | SentNext | Terminal | Aborted | Thrown js_error

definition finish_trade ::
  "exec_env \<Rightarrow> executor \<Rightarrow> string \<Rightarrow> inflight_entry \<Rightarrow> string \<Rightarrow> fill_outcome \<times> executor" where
  "finish_trade env s c st i =
     (case emitTrade env s (ie_opp st) (ie_fills st) of
        Inl e \<Rightarrow> (Thrown e, xack ''orders.fills'' i s)
      | Inr s' \<Rightarrow> (Terminal, xack ''orders.fills'' i (s'\<lparr> inflight := (inflight s')(c := None) \<rparr>)))"

definition handleFill ::
  "exec_env \<Rightarrow> executor \<Rightarrow> string \<times> fill option \<Rightarrow> fill_outcome \<times> executor" where
  "handleFill env s m =
     (case snd m of
        None \<Rightarrow> (ParseFailed, xack ''orders.fills'' (fst m) s)
      | Some fl \<Rightarrow>
          (let p = fill_payload fl;
               corrId = (case p of None \<Rightarrow> None | Some q \<Rightarrow> fp_corrId q);
               legIndex = (case p of None \<Rightarrow> None | Some q \<Rightarrow> fp_legIndex q);
               filledSize = (case p of None \<Rightarrow> JNum 0
                             | Some q \<Rightarrow> if fp_filledSize q = JUndefined then JNum 0 else fp_filledSize q)
           in (case (case corrId of None \<Rightarrow> None
                     | Some c \<Rightarrow> (case inflight s c of None \<Rightarrow> None | Some st \<Rightarrow> Some (c, st))) of
                 None \<Rightarrow> (NoInflight, xack ''orders.fills'' (fst m) s)
               | Some (c, st0) \<Rightarrow>
                   (let st = st0\<lparr> ie_fills := set_fill (ie_fills st0) legIndex fl \<rparr>;
                        s1 = s\<lparr> inflight := (inflight s)(c \<mapsto> st) \<rparr>
                    in if legIndex = Some 0 then
                         (if num_gt (toNumber (str_num env) filledSize) (Fin 0) then
                            (case drop 1 (ie_legs st) of
                               l1 # _ \<Rightarrow> (SentNext, xack ''orders.fills'' (fst m) (snd (sendOrder env s1 c 1 l1)))
                             | [] \<Rightarrow> finish_trade env s1 c st (fst m))
                          else (Aborted, xack ''orders.fills'' (fst m)
                                           (s1\<lparr> inflight := (inflight s1)(c := None) \<rparr>)))
                       else finish_trade env s1 c st (fst m)))))"

definition consumeFills :: "exec_env \<Rightarrow> executor \<Rightarrow> executor" where
  "consumeFills env s =
     (if \<not> tradingEnabled s then s
      else if \<not> fillsReady s then s
      else
        (let res = take 50 (orders_fills s)
         in if res = [] then s
            else foldl (\<lambda>s' m. snd (handleFill env s' m))
                   (s\<lparr> orders_fills := drop 50 (orders_fills s) \<rparr>) res))"

section \<open>Trade assembler\<close>

record pend_rec =
  pr_legs :: "fill list"
  pr_ts :: jsval
  pr_mode :: string

record asm_leg =
  al_exchange :: "string option"
  al_instrumentId :: "string option"
  al_side :: string
  al_px :: jsnum
  al_size :: jsnum

text \<open>The entry written to \<open>arb.trades\<close>: \<open>{ id, ts: trade.ts, type: 'trade', payload: trade }\<close>.\<close>

record trade_msg =
  tm_id :: string
  tm_ts :: jsval
  tm_type :: string
  tm_payload :: "asm_leg trade"

record assembler =
  pending :: "string \<rightharpoonup> pend_rec"
  trades_db :: "asm_leg trade list"
  asm_trades :: "trade_msg list"
  asm_acked :: "string list"
  tradesBuilt :: nat

definition upsertFill :: "rat \<Rightarrow> assembler \<Rightarrow> fill \<Rightarrow> pend_rec option \<times> assembler" where
  "upsertFill now a fl =
     (let p = fill_payload fl;
          corr = str_or_empty (case p of None \<Rightarrow> None | Some q \<Rightarrow> fp_corrId q)
      in if corr = [] then (None, a)
         else
           (let rec0 = (case pending a corr of
                          Some r \<Rightarrow> r
                        | None \<Rightarrow> \<lparr> pr_legs = [], pr_ts = JNum now, pr_mode = ''paper'' \<rparr>);
                rec1 = rec0\<lparr> pr_legs := pr_legs rec0 @ [fl],
                             pr_ts := js_or (fill_ts fl) (pr_ts rec0) \<rparr>;
                md = str_or_empty (case p of None \<Rightarrow> None | Some q \<Rightarrow> fp_mode q);
                rec2 = (if md \<noteq> [] then rec1\<lparr> pr_mode := md \<rparr> else rec1);
                a1 = a\<lparr> pending := (pending a)(corr \<mapsto> rec2) \<rparr>
            in if length (pr_legs rec2) \<ge> 2
               then (Some rec2, a1\<lparr> pending := (pending a1)(corr := None) \<rparr>)
               else (None, a1)))"

definition asm_leg_of :: "(string \<Rightarrow> jsnum) \<Rightarrow> fill \<Rightarrow> asm_leg" where
  "asm_leg_of sn f =
     (let p = fill_payload f in
      \<lparr> al_exchange = (case p of None \<Rightarrow> None | Some q \<Rightarrow> fp_exchange q),
        al_instrumentId = (case p of None \<Rightarrow> None | Some q \<Rightarrow> fp_instrumentId q),
        al_side = toUpperCase (str_or_empty (case p of None \<Rightarrow> None | Some q \<Rightarrow> fp_side q)),
        al_px = toNumber sn (case p of None \<Rightarrow> JUndefined | Some q \<Rightarrow> fp_px q),
        al_size = toNumber sn (js_or (case p of None \<Rightarrow> JUndefined | Some q \<Rightarrow> fp_filledSize q) (JNum 0)) \<rparr>)"

definition computeTradeFromFills :: "(string \<Rightarrow> jsnum) \<Rightarrow> pend_rec \<Rightarrow> asm_leg trade option" where
  "computeTradeFromFills sn r =
     (let lgs = map (asm_leg_of sn) (pr_legs r)
      in if length lgs < 2 then None
         else
           (case (find (\<lambda>l. al_side l = ''BUY'') lgs, find (\<lambda>l. al_side l = ''SELL'') lgs) of
              (Some buy, Some sell) \<Rightarrow>
                (let sz = num_min (al_size buy) (al_size sell);
                     realized = num_mul (num_sub (al_px sell) (al_px buy)) sz
                 in Some \<lparr> t_ts = pr_ts r,
                           t_mode = (if pr_mode r = [] then ''paper'' else pr_mode r),
                           t_legs = lgs,
                           t_realizedPnl = (case realized of Fin x \<Rightarrow> x | NaN \<Rightarrow> 0),
                           t_taken = None,
                           t_approved = JUndefined,
                           t_source = None \<rparr>)
            | _ \<Rightarrow> None))"

text \<open>
  The body of the assembler's loop for one entry of \<open>orders.fills\<close>; \<open>None\<close> is an
  entry on which \<open>JSON.parse\<close> throws. The entry is acknowledged in every case.
\<close>

definition asm_step ::
  "(string \<Rightarrow> jsnum) \<Rightarrow> rat \<Rightarrow> assembler \<Rightarrow> string \<times> fill option \<Rightarrow> assembler" where
  "asm_step sn now a m =
     (let a' =
        (case snd m of
           None \<Rightarrow> a
         | Some fl \<Rightarrow>
             (let ja = upsertFill now a fl in
              case fst ja of
                None \<Rightarrow> snd ja
              | Some joined \<Rightarrow>
                  (case computeTradeFromFills sn joined of
                     None \<Rightarrow> snd ja
                   | Some tr \<Rightarrow>
                       (snd ja)\<lparr> trades_db := trades_db (snd ja) @ [tr],
                                 asm_trades := asm_trades (snd ja) @
                                   [\<lparr> tm_id = fst m, tm_ts = t_ts tr, tm_type = ''trade'', tm_payload = tr \<rparr>],
                                 tradesBuilt := Suc (tradesBuilt (snd ja)) \<rparr>)))
      in a'\<lparr> asm_acked := asm_acked a' @ [fst m] \<rparr>)"

section \<open>Risk engine\<close>

record risk_cfg =
  EDGE_MIN_BPS :: rat
  NET_MIN_BPS :: rat
  MAX_TOTAL_SIZE :: rat
  REQUIRE_BOTH_SIDES :: bool
  ALLOW_PAPER_ONLY :: bool

record eval_res =
  ok :: bool
  reason :: string
  ev_netBps :: "jsnum option"
  ev_totalFeesLikeBps :: "jsnum option"

text \<open>The risk engine's \<open>safeNum(v, d)\<close>: \<open>v == null || isNaN(v) ? d : Number(v)\<close>.\<close>

definition risk_safeNum :: "(string \<Rightarrow> jsnum) \<Rightarrow> jsval \<Rightarrow> jsnum \<Rightarrow> jsnum" where
  "risk_safeNum sn v d =
     (if v = JUndefined \<or> v = JNull then d
      else (case toNumber sn v of NaN \<Rightarrow> d | Fin r \<Rightarrow> Fin r))"

text \<open>\<open>toUpper(l?.side) === w\<close> with \<open>toUpper = (s) => String(s || '').toUpperCase()\<close>.\<close>

definition toUpper_is :: "string \<Rightarrow> 'a leg_scheme \<Rightarrow> bool" where
  "toUpper_is w l = (toUpperCase (str_or_empty (side l)) = w)"

text \<open>
  \<open>Number(x.toFixed(2))\<close>: the magnitude is rounded to the nearest hundredth, a tie
  upwards; from \<open>10^21\<close> on \<open>toFixed\<close> prints the number itself.
\<close>

definition toFixed2 :: "rat \<Rightarrow> rat" where
  "toFixed2 x =
     (if \<bar>x\<bar> \<ge> 10 ^ 21 then x
      else sgn x * (of_int \<lfloor>\<bar>x\<bar> * 100 + 1 / 2\<rfloor> / 100))"

definition num_toFixed2 :: "jsnum \<Rightarrow> jsnum" where
  "num_toFixed2 n = (case n of Fin x \<Rightarrow> Fin (toFixed2 x) | NaN \<Rightarrow> NaN)"

definition rejected :: "string \<Rightarrow> eval_res" where
  "rejected why = \<lparr> ok = False, reason = why, ev_netBps = None, ev_totalFeesLikeBps = None \<rparr>"

definition evaluateRisk :: "(string \<Rightarrow> jsnum) \<Rightarrow> risk_cfg \<Rightarrow> 'a opportunity_scheme \<Rightarrow> eval_res" where
  "evaluateRisk sn cfg opp =
     (let p = payload opp;
          p_paper = (case p of None \<Rightarrow> JUndefined | Some q \<Rightarrow> paper q);
          p_edgeBps = (case p of None \<Rightarrow> JUndefined | Some q \<Rightarrow> edgeBps q);
          p_cost = (\<lambda>field. case p of None \<Rightarrow> JUndefined
                     | Some q \<Rightarrow> (case opp_costs q of None \<Rightarrow> JUndefined | Some c \<Rightarrow> field c));
          mode = (if truthy p_paper then ''paper'' else ''live'')
      in if \<not> ALLOW_PAPER_ONLY cfg \<and> mode = ''paper'' then rejected ''paper_mode_not_allowed''
         else
           (let lgs = (case p of None \<Rightarrow> [] | Some q \<Rightarrow> (case legs q of None \<Rightarrow> [] | Some ls \<Rightarrow> ls))
            in if REQUIRE_BOTH_SIDES cfg
                  \<and> (\<not> list_ex (toUpper_is ''BUY'') lgs \<or> \<not> list_ex (toUpper_is ''SELL'') lgs)
               then rejected ''missing_side''
               else
                 (let totalSize = foldl (\<lambda>a b. num_add a (risk_safeNum sn (leg_size b) (Fin 0))) (Fin 0) lgs
                  in if num_gt totalSize (Fin 0) \<and> num_gt totalSize (Fin (MAX_TOTAL_SIZE cfg))
                     then rejected ''size_exceeds_cap''
                     else
                       (let buyPx = (case find (toUpper_is ''BUY'') lgs of
                                       None \<Rightarrow> NaN | Some b \<Rightarrow> risk_safeNum sn (estPx b) NaN);
                            sellPx = (case find (toUpper_is ''SELL'') lgs of
                                        None \<Rightarrow> NaN | Some b \<Rightarrow> risk_safeNum sn (estPx b) NaN);
                            gross0 = (case p_edgeBps of JNum r \<Rightarrow> Fin r | _ \<Rightarrow> NaN);
                            grossBps =
                              (case (gross0, buyPx, sellPx) of
                                 (NaN, Fin b, Fin s) \<Rightarrow>
                                   (let mid = (b + s) / 2
                                    in if mid > 0 then Fin (((s - b) / mid) * 10000) else NaN)
                               | _ \<Rightarrow> gross0)
                        in if \<not> isFinite grossBps \<or> num_lt grossBps (Fin (EDGE_MIN_BPS cfg))
                           then rejected ''edge_below_threshold''
                           else
                             (let legsFeeBps = foldl num_add (Fin 0)
                                                 (map (\<lambda>l. risk_safeNum sn (feeBps l) (Fin 0)) lgs);
                                  feesBpsAbs = num_mul (risk_safeNum sn (p_cost fees) (Fin 0)) (Fin 10000);
                                  feesBps = (if num_gt legsFeeBps (Fin 0) then legsFeeBps else feesBpsAbs);
                                  slippageBps = num_mul (risk_safeNum sn (p_cost slippage) (Fin 0)) (Fin 10000);
                                  borrowBps = num_mul (risk_safeNum sn (p_cost borrow) (Fin 0)) (Fin 10000);
                                  totalFeesLikeBps = num_add (num_add feesBps slippageBps) borrowBps;
                                  netBps = num_toFixed2 (num_sub grossBps totalFeesLikeBps)
                              in if num_lt netBps (Fin (NET_MIN_BPS cfg))
                                 then \<lparr> ok = False, reason = ''net_below_threshold'',
                                        ev_netBps = Some netBps, ev_totalFeesLikeBps = Some totalFeesLikeBps \<rparr>
                                 else \<lparr> ok = True, reason = ''approved'',
                                        ev_netBps = Some netBps, ev_totalFeesLikeBps = Some totalFeesLikeBps \<rparr>)))))"

definition buildApproved :: "risk_cfg \<Rightarrow> 'a opportunity_scheme \<Rightarrow> eval_res \<Rightarrow> 'a opportunity_scheme" where
  "buildApproved cfg opp ev =
     opp\<lparr> opp_approved := JBool True,
          opp_risk := Some
            \<lparr> rk_reason = (if reason ev = [] then ''approved'' else reason ev),
              rk_netBps = ev_netBps ev,
              rk_totalFeesLikeBps = ev_totalFeesLikeBps ev,
              rk_policy = \<lparr> pol_EDGE_MIN_BPS = EDGE_MIN_BPS cfg,
                             pol_NET_MIN_BPS = NET_MIN_BPS cfg,
                             pol_MAX_TOTAL_SIZE = MAX_TOTAL_SIZE cfg,
                             pol_REQUIRE_BOTH_SIDES = REQUIRE_BOTH_SIDES cfg \<rparr> \<rparr> \<rparr>"

text \<open>
  The risk engine with its streams: the entries of the input stream not yet
  delivered to group \<open>risk\<close>, and what it has appended to \<open>arb.approved\<close>.
\<close>

record 'a risk_engine =
  risk_input :: "(string \<times> 'a opportunity_scheme option) list"
  risk_output :: "'a opportunity_scheme list"
  approvedCounter :: nat
  rejectedCounter :: nat
  risk_acked :: "string list"

text \<open>The body of the loop of \<open>consume\<close> for one entry, with its \<open>finally\<close>.\<close>

definition consume_step ::
  "(string \<Rightarrow> jsnum) \<Rightarrow> risk_cfg \<Rightarrow> 'a risk_engine \<Rightarrow> string \<times> 'a opportunity_scheme option
     \<Rightarrow> 'a risk_engine" where
  "consume_step sn cfg r m =
     (let r' =
        (case snd m of
           None \<Rightarrow> r
         | Some opp \<Rightarrow>
             (let ev = evaluateRisk sn cfg opp in
              if ok ev
              then r\<lparr> risk_output := risk_output r @ [buildApproved cfg opp ev],
                      approvedCounter := Suc (approvedCounter r) \<rparr>
              else r\<lparr> rejectedCounter := Suc (rejectedCounter r) \<rparr>))
      in r'\<lparr> risk_acked := risk_acked r' @ [fst m] \<rparr>)"

definition consume :: "(string \<Rightarrow> jsnum) \<Rightarrow> risk_cfg \<Rightarrow> 'a risk_engine \<Rightarrow> 'a risk_engine" where
  "consume sn cfg r =
     (let res = take 50 (risk_input r)
      in if res = [] then r
         else foldl (consume_step sn cfg) (r\<lparr> risk_input := drop 50 (risk_input r) \<rparr>) res)"

section \<open>Scanner\<close>

record scan_cfg =
  MIN_NET_BPS :: rat
  MIN_GROSS_BPS :: rat
  MIN_ABS_SPREAD :: rat
  MIN_NOTIONAL :: rat
  MAX_BOOK_AGE_MS :: rat
  EX1_TAKER_BPS :: rat
  EX2_TAKER_BPS :: rat
  EMIT_RATE_PER_SEC :: rat
  EMIT_BURST :: rat
  OPT_EX1_LABEL :: string
  OPT_EX2_LABEL :: string

text \<open>The JSON object under an order-book key, and the book parsed from it.\<close>

record quote_json =
  q_bid :: jsval
  q_ask :: jsval
  q_ts :: jsval

record book =
  bid :: rat
  ask :: rat
  ts :: jsnum

text \<open>The scanner's \<open>safeNum\<close>: the number when it is finite, else \<open>undefined\<close>.\<close>

definition safeNum :: "(string \<Rightarrow> jsnum) \<Rightarrow> jsval \<Rightarrow> rat option" where
  "safeNum sn x = (case toNumber sn x of Fin n \<Rightarrow> Some n | NaN \<Rightarrow> None)"

text \<open>
  \<open>parseBook\<close>: \<open>None\<close> for the argument is a missing key or a text that does not
  parse to an object; \<open>now\<close> is the clock when \<open>ts\<close> is absent.
\<close>

definition parseBook :: "(string \<Rightarrow> jsnum) \<Rightarrow> rat \<Rightarrow> quote_json option \<Rightarrow> book option" where
  "parseBook sn now raw =
     (case raw of
        None \<Rightarrow> None
      | Some obj \<Rightarrow>
          (case (safeNum sn (q_bid obj), safeNum sn (q_ask obj)) of
             (Some b, Some a) \<Rightarrow> Some \<lparr> bid = b, ask = a, ts = toNumber sn (js_or (q_ts obj) (JNum now)) \<rparr>
           | _ \<Rightarrow> None))"

record edge =
  e_mid :: rat
  e_grossBps :: rat
  e_feesBps :: rat
  e_netBps :: rat
  e_abs :: rat

definition bps :: "rat \<Rightarrow> rat" where
  "bps x = x * 10000"

definition calcEdge :: "rat \<Rightarrow> rat \<Rightarrow> rat \<Rightarrow> rat \<Rightarrow> edge" where
  "calcEdge pxBuy feeBuyBps pxSell feeSellBps =
     (let mid = (pxBuy + pxSell) / 2
      in if \<not> (mid > 0)
         then \<lparr> e_mid = 0, e_grossBps = 0, e_feesBps = 0, e_netBps = 0, e_abs = 0 \<rparr>
         else
           (let grossBps = bps ((pxSell - pxBuy) / mid);
                feesBps = (if feeBuyBps \<noteq> 0 then feeBuyBps else 0)
                          + (if feeSellBps \<noteq> 0 then feeSellBps else 0);
                netBps = grossBps - feesBps
            in \<lparr> e_mid = mid, e_grossBps = grossBps, e_feesBps = feesBps,
                 e_netBps = netBps, e_abs = pxSell - pxBuy \<rparr>))"

text \<open>The scanner's token bucket and what it has appended to \<open>arb.opportunities\<close>.\<close>

record scanner =
  tokens :: rat
  lastRefill :: rat
  emitted :: "opportunity list"

definition takeToken :: "scan_cfg \<Rightarrow> rat \<Rightarrow> scanner \<Rightarrow> bool \<times> scanner" where
  "takeToken cfg t s =
     (let delta = (t - lastRefill s) / 1000;
          tk = min (EMIT_BURST cfg) (tokens s + delta * EMIT_RATE_PER_SEC cfg);
          s' = s\<lparr> lastRefill := t, tokens := tk \<rparr>
      in if tk \<ge> 1 then (True, s'\<lparr> tokens := tk - 1 \<rparr>) else (False, s'))"

text \<open>The entry \<open>{ ts: now(), payload: { edgeBps, legs, paper } }\<close> that \<open>emitOpp\<close> appends.\<close>

definition opp_msg :: "rat \<Rightarrow> leg list \<Rightarrow> rat \<Rightarrow> bool \<Rightarrow> opportunity" where
  "opp_msg t lgs edge_bps is_paper =
     \<lparr> opp_corrId = None, opp_id = None, opp_ts = JNum t, opp_approved = JUndefined,
       opp_risk = None,
       payload = Some \<lparr> paper = JBool is_paper, edgeBps = JNum edge_bps,
                         legs = Some lgs, opp_costs = None \<rparr> \<rparr>"

definition emitOpp :: "scan_cfg \<Rightarrow> rat \<Rightarrow> scanner \<Rightarrow> leg list \<Rightarrow> rat \<Rightarrow> rat \<Rightarrow> bool \<Rightarrow> scanner" where
  "emitOpp cfg t s lgs edge_bps fees_bps is_paper =
     (let tk = takeToken cfg t s
      in if \<not> fst tk then snd tk
         else (snd tk)\<lparr> emitted := emitted (snd tk) @ [opp_msg t lgs edge_bps is_paper] \<rparr>)"

text \<open>The two legs of a directional path, as the scanner writes them.\<close>

definition path_legs :: "string \<Rightarrow> string \<Rightarrow> string \<Rightarrow> rat \<Rightarrow> rat \<Rightarrow> rat \<Rightarrow> rat \<Rightarrow> leg list" where
  "path_legs canon labelBuy labelSell pxBuy feeBuyBps pxSell feeSellBps =
     [\<lparr> exchange = Some labelBuy, instrumentId = Some canon, side = Some ''BUY'',
        estPx = JNum pxBuy, leg_size = JUndefined, feeBps = JNum feeBuyBps \<rparr>,
      \<lparr> exchange = Some labelSell, instrumentId = Some canon, side = Some ''SELL'',
        estPx = JNum pxSell, leg_size = JUndefined, feeBps = JNum feeSellBps \<rparr>]"

text \<open>
  One directional path of \<open>scanOnce\<close>: buy at \<open>pxBuy\<close> on the first venue, sell at
  \<open>pxSell\<close> on the second. The outer guard is \<open>if (pxBuy && pxSell)\<close>; the
  conjunct \<open>Number.isFinite(netBps)\<close> of the inner one holds of every rational.
\<close>

definition scan_path ::
  "scan_cfg \<Rightarrow> rat \<Rightarrow> scanner \<Rightarrow> string \<Rightarrow> string \<Rightarrow> string \<Rightarrow> rat \<Rightarrow> rat \<Rightarrow> rat \<Rightarrow> rat \<Rightarrow> scanner" where
  "scan_path cfg t s canon labelBuy labelSell pxBuy feeBuyBps pxSell feeSellBps =
     (if pxBuy \<noteq> 0 \<and> pxSell \<noteq> 0 then
        (let e = calcEdge pxBuy feeBuyBps pxSell feeSellBps;
             notionalOK = (e_mid e * 1 \<ge> MIN_NOTIONAL cfg)
         in if e_grossBps e \<ge> MIN_GROSS_BPS cfg
               \<and> e_netBps e \<ge> MIN_NET_BPS cfg
               \<and> e_abs e \<ge> MIN_ABS_SPREAD cfg
               \<and> notionalOK
            then emitOpp cfg t s (path_legs canon labelBuy labelSell pxBuy feeBuyBps pxSell feeSellBps)
                   (e_grossBps e) (e_feesBps e) True
            else s)
      else s)"

text \<open>The clock readings of one round of the loop: in \<open>parseBook\<close> and at each emission.\<close>

record clock_reads =
  c_parse :: rat
  c_emitA :: rat
  c_emitB :: rat

definition stale :: "scan_cfg \<Rightarrow> rat \<Rightarrow> book \<Rightarrow> bool" where
  "stale cfg tNow b = num_gt (num_sub (Fin tNow) (ts b)) (Fin (MAX_BOOK_AGE_MS cfg))"

text \<open>The body of the loop of \<open>scanOnce\<close> for one pair and its two raw books.\<close>

definition scan_pair ::
  "scan_cfg \<Rightarrow> (string \<Rightarrow> jsnum) \<Rightarrow> rat \<Rightarrow> scanner
     \<Rightarrow> clock_reads \<times> string \<times> quote_json option \<times> quote_json option \<Rightarrow> scanner" where
  "scan_pair cfg sn tNow s pr =
     (case pr of (clk, canon, raw1, raw2) \<Rightarrow>
        (case (parseBook sn (c_parse clk) raw1, parseBook sn (c_parse clk) raw2) of
           (Some b1, Some b2) \<Rightarrow>
             if stale cfg tNow b1 \<or> stale cfg tNow b2 then s
             else
               (let s1 = scan_path cfg (c_emitA clk) s canon (OPT_EX1_LABEL cfg) (OPT_EX2_LABEL cfg)
                           (ask b1) (EX1_TAKER_BPS cfg) (bid b2) (EX2_TAKER_BPS cfg)
                in scan_path cfg (c_emitB clk) s1 canon (OPT_EX2_LABEL cfg) (OPT_EX1_LABEL cfg)
                     (ask b2) (EX2_TAKER_BPS cfg) (bid b1) (EX1_TAKER_BPS cfg))
         | _ \<Rightarrow> s))"

definition scanOnce ::
  "scan_cfg \<Rightarrow> (string \<Rightarrow> jsnum) \<Rightarrow> rat \<Rightarrow> scanner
     \<Rightarrow> (clock_reads \<times> string \<times> quote_json option \<times> quote_json option) list \<Rightarrow> scanner" where
  "scanOnce cfg sn tNow s pairs = (if pairs = [] then s else foldl (scan_pair cfg sn tNow) s pairs)"

section \<open>Example values\<close>

definition ex_buy :: leg where
  "ex_buy = \<lparr> exchange = Some ''binance'', instrumentId = Some ''BTCUSDT'', side = Some ''BUY'',
              estPx = JNum 100, leg_size = JNum 1, feeBps = JUndefined \<rparr>"

definition ex_sell :: leg where
  "ex_sell = \<lparr> exchange = Some ''bybit'', instrumentId = Some ''BTCUSDT'', side = Some ''SELL'',
               estPx = JNum 101, leg_size = JNum 1, feeBps = JUndefined \<rparr>"

definition ex_opp :: opportunity where
  "ex_opp = \<lparr> opp_corrId = None, opp_id = Some ''opp-1'', opp_ts = JNum 1710000000000,
              opp_approved = JBool True, opp_risk = None,
              payload = Some \<lparr> paper = JBool True, edgeBps = JNum 250,
                                legs = Some [ex_buy, ex_sell], opp_costs = None \<rparr> \<rparr>"

definition ex_env :: exec_env where
  "ex_env = \<lparr> MIN_REALIZED_PNL = 0, Date_now = 1710000000000,
              uuidv4 = (\<lambda>n. ''uuid''), str_num = (\<lambda>s. NaN) \<rparr>"

text \<open>An executor with auto-trade on that holds \<open>ex_opp\<close> inflight, its SELL leg sent.\<close>

definition ex_entry :: inflight_entry where
  "ex_entry = \<lparr> ie_opp = ex_opp, ie_legs = [ex_sell, ex_buy], ie_fills = [],
                ie_startedTs = 1710000000000 \<rparr>"

definition ex_exec :: executor where
  "ex_exec = \<lparr> AUTO_TRADE = True, MODE = ''paper'', oppReady = True, fillsReady = True,
               inflight = [''opp-1'' \<mapsto> ex_entry],
               kv_autoTrade = Some ''true'', kv_mode = None,
               arb_opportunities = [], arb_approved = [], orders_fills = [],
               orders_new = [], arb_trades = [], acked = [], uuid_next = 1,
               execCounter = 1, legCounter = 1, tradeCounter = 0 \<rparr>"

text \<open>
  Fills for the two legs of \<open>ex_opp\<close> in the executor's order: the SELL leg is
  leg 0 (its filled size is a parameter), the BUY leg is leg 1.
\<close>

definition ex_fill_sell :: "rat \<Rightarrow> fill" where
  "ex_fill_sell sz =
     \<lparr> fill_id = Some ''fill-0'', fill_ts = JNum 1710000000001,
       fill_payload = Some \<lparr> fp_corrId = Some ''opp-1'', fp_legIndex = Some 0,
                              fp_exchange = Some ''bybit'', fp_instrumentId = Some ''BTCUSDT'',
                              fp_side = Some ''SELL'', fp_px = JNum 101,
                              fp_requestedSize = JNum 1, fp_filledSize = JNum sz,
                              fp_mode = None \<rparr> \<rparr>"

definition ex_fill_buy :: fill where
  "ex_fill_buy =
     \<lparr> fill_id = Some ''fill-1'', fill_ts = JNum 1710000000002,
       fill_payload = Some \<lparr> fp_corrId = Some ''opp-1'', fp_legIndex = Some 1,
                              fp_exchange = Some ''binance'', fp_instrumentId = Some ''BTCUSDT'',
                              fp_side = Some ''BUY'', fp_px = JNum 100,
                              fp_requestedSize = JNum 1, fp_filledSize = JNum 1,
                              fp_mode = None \<rparr> \<rparr>"


text \<open>
  An executor in manual mode (auto-trade off) with nothing inflight and one
  approved Opportunity waiting on \<open>arb.approved\<close>; and the same executor with
  auto-trade on and the Opportunity waiting on \<open>arb.opportunities\<close>.
\<close>

definition ex_manual :: executor where
  "ex_manual = \<lparr> AUTO_TRADE = False, MODE = ''paper'', oppReady = True, fillsReady = True,
                 inflight = Map.empty,
                 kv_autoTrade = Some ''false'', kv_mode = None,
                 arb_opportunities = [], arb_approved = [(''7-0'', Some ex_opp)], orders_fills = [],
                 orders_new = [], arb_trades = [], acked = [], uuid_next = 0,
                 execCounter = 0, legCounter = 0, tradeCounter = 0 \<rparr>"

definition ex_auto :: executor where
  "ex_auto = \<lparr> AUTO_TRADE = True, MODE = ''paper'', oppReady = True, fillsReady = True,
               inflight = Map.empty,
               kv_autoTrade = Some ''true'', kv_mode = None,
               arb_opportunities = [(''1-0'', Some ex_opp)], arb_approved = [], orders_fills = [],
               orders_new = [], arb_trades = [], acked = [], uuid_next = 0,
               execCounter = 0, legCounter = 0, tradeCounter = 0 \<rparr>"

text \<open>The executor \<open>ex_exec\<close> after a full fill of leg 0 has made it send leg 1.\<close>

definition ex_exec_leg1 :: executor where
  "ex_exec_leg1 = snd (handleFill ex_env ex_exec (''9-0'', Some (ex_fill_sell 1)))"

text \<open>A trade assembler that has seen nothing yet.\<close>

definition ex_asm :: assembler where
  "ex_asm = \<lparr> pending = Map.empty, trades_db = [], asm_trades = [], asm_acked = [], tradesBuilt = 0 \<rparr>"








section \<open>Basic facts\<close>

lemma upper_SELL: "toUpperCase ''SELL'' = ''SELL''"
  by code_simp

lemma upper_BUY: "toUpperCase ''BUY'' = ''BUY''"
  by code_simp

lemma is_sell_ex_sell: "is_sell ex_sell"
  by (simp add: is_sell_def ex_sell_def str_or_empty_def upper_SELL)

lemma not_is_sell_ex_buy: "\<not> is_sell ex_buy"
  by (simp add: is_sell_def ex_buy_def str_or_empty_def upper_BUY)

section \<open>Protective leg first\<close>

lemma findIndex_split:
  "(\<forall>l\<in>set pre. \<not> p l) \<Longrightarrow> p s \<Longrightarrow> findIndex p (pre @ s # post) = Some (length pre)"
  by (induction pre) auto

lemma findIndex_none: "(\<forall>l\<in>set xs. \<not> p l) \<Longrightarrow> findIndex p xs = None"
  by (induction xs) auto

lemma findIndex_bound: "findIndex p xs = Some i \<Longrightarrow> i < length xs"
proof (induction xs arbitrary: i)
  case Nil
  then show ?case by simp
next
  case (Cons x xs)
  then show ?case by (auto split: if_splits option.splits)
qed

lemma filter_enumerate_ne:
  "map snd (filter (\<lambda>(i, x). i \<noteq> n + idx) (enumerate n xs)) = take idx xs @ drop (Suc idx) xs"
proof (induction xs arbitrary: n idx)
  case Nil
  then show ?case by simp
next
  case (Cons x xs)
  show ?case
  proof (cases idx)
    case 0
    have "filter (\<lambda>(i, x). i \<noteq> n) (enumerate (Suc n) xs) = enumerate (Suc n) xs"
      by (rule filter_True) (auto simp: in_set_enumerate_eq)
    with 0 show ?thesis by simp
  next
    case (Suc k)
    with Cons.IH [of "Suc n" k] show ?thesis by simp
  qed
qed

lemma filter_index_ne_eq: "filter_index_ne idx xs = take idx xs @ drop (Suc idx) xs"
  using filter_enumerate_ne [of 0 idx xs] by (simp add: filter_index_ne_def)

lemma protectiveFirst_mset: "mset (protectiveFirst L) = mset L"
proof (cases "findIndex is_sell L")
  case None
  then show ?thesis by (simp add: protectiveFirst_def)
next
  case (Some i)
  then have "i < length L" by (rule findIndex_bound)
  then have "mset L = mset (take i L @ (L ! i) # drop (Suc i) L)"
    by (simp add: id_take_nth_drop [symmetric])
  also have "\<dots> = mset ((L ! i) # take i L @ drop (Suc i) L)" by simp
  finally show ?thesis using Some by (simp add: protectiveFirst_def filter_index_ne_eq)
qed

text \<open>
  Claim C8. \<open>protectiveFirst\<close> only reorders: the result has the legs of \<open>L\<close> with
  their multiplicities; when no leg of \<open>L\<close> is a SELL leg the result is \<open>L\<close>; and when
  \<open>s\<close> is the first SELL leg of \<open>L\<close>, after the legs \<open>pre\<close> and before the legs
  \<open>post\<close>, the result is \<open>s\<close> followed by \<open>pre\<close> and \<open>post\<close> in their order.
\<close>

theorem protectiveFirst_reorders:
  "mset (protectiveFirst L) = mset L
   \<and> ((\<forall>l\<in>set L. \<not> is_sell l) \<longrightarrow> protectiveFirst L = L)
   \<and> (\<forall>pre s post. L = pre @ s # post \<and> (\<forall>l\<in>set pre. \<not> is_sell l) \<and> is_sell s
         \<longrightarrow> protectiveFirst L = s # pre @ post)"
proof (intro conjI allI impI)
  show "mset (protectiveFirst L) = mset L" by (rule protectiveFirst_mset)
next
  assume "\<forall>l\<in>set L. \<not> is_sell l"
  then show "protectiveFirst L = L" by (simp add: protectiveFirst_def findIndex_none)
next
  fix pre s post
  assume a: "L = pre @ s # post \<and> (\<forall>l\<in>set pre. \<not> is_sell l) \<and> is_sell s"
  then have "findIndex is_sell L = Some (length pre)" by (simp add: findIndex_split)
  with a show "protectiveFirst L = s # pre @ post"
    by (simp add: protectiveFirst_def filter_index_ne_eq)
qed

theorem protectiveFirst_reorders_witness:
  "is_sell ex_sell \<and> \<not> is_sell ex_buy
   \<and> protectiveFirst [ex_buy, ex_sell] = [ex_sell, ex_buy]
   \<and> protectiveFirst [ex_buy] = [ex_buy]"
proof -
  have a: "[ex_buy, ex_sell] = [ex_buy] @ ex_sell # [] \<and> (\<forall>l\<in>set [ex_buy]. \<not> is_sell l) \<and> is_sell ex_sell"
    by (simp add: is_sell_ex_sell not_is_sell_ex_buy)
  have b: "\<forall>l\<in>set [ex_buy]. \<not> is_sell l"
    by (simp add: not_is_sell_ex_buy)
  from protectiveFirst_reorders [of "[ex_buy, ex_sell]"] a
  have "protectiveFirst [ex_buy, ex_sell] = ex_sell # [ex_buy] @ []" by blast
  moreover from protectiveFirst_reorders [of "[ex_buy]"] b
  have "protectiveFirst [ex_buy] = [ex_buy]" by blast
  ultimately show ?thesis by (simp add: is_sell_ex_sell not_is_sell_ex_buy)
qed

section \<open>Router-executor: stream selection\<close>

lemma sendOrder_frame:
  "arb_approved (snd (sendOrder env s c i l)) = arb_approved s
   \<and> arb_opportunities (snd (sendOrder env s c i l)) = arb_opportunities s
   \<and> acked (snd (sendOrder env s c i l)) = acked s
   \<and> arb_trades (snd (sendOrder env s c i l)) = arb_trades s"
  by (simp add: sendOrder_def Let_def)

lemma corr_of_frame:
  "arb_approved (snd (corr_of env s opp)) = arb_approved s
   \<and> arb_opportunities (snd (corr_of env s opp)) = arb_opportunities s
   \<and> acked (snd (corr_of env s opp)) = acked s
   \<and> arb_trades (snd (corr_of env s opp)) = arb_trades s"
  by (simp add: corr_of_def)

lemma handleOpportunity_frame:
  "arb_approved (handleOpportunity env src s m) = arb_approved s
   \<and> arb_opportunities (handleOpportunity env src s m) = arb_opportunities s
   \<and> arb_trades (handleOpportunity env src s m) = arb_trades s
   \<and> acked (handleOpportunity env src s m) = acked s @ [(src, fst m)]"
  by (simp add: handleOpportunity_def xack_def Let_def sendOrder_frame corr_of_frame
      split: option.split list.split)

lemma foldl_handleOpportunity_frame:
  "arb_approved (foldl (handleOpportunity env src) s ms) = arb_approved s
   \<and> arb_opportunities (foldl (handleOpportunity env src) s ms) = arb_opportunities s
   \<and> arb_trades (foldl (handleOpportunity env src) s ms) = arb_trades s
   \<and> acked (foldl (handleOpportunity env src) s ms) = acked s @ map (\<lambda>m. (src, fst m)) ms"
proof (induction ms arbitrary: s)
  case Nil
  then show ?case by simp
next
  case (Cons m ms)
  show ?case
    using Cons.IH [of "handleOpportunity env src s m"] handleOpportunity_frame [of env src s m]
    by simp
qed

text \<open>
  Claim C1 as stated fails: in manual mode, with an approved Opportunity waiting on
  \<open>arb.approved\<close>, a cycle of both consumers leaves the executor and the streams as
  they were; the Opportunity is not consumed.
\<close>

theorem manual_mode_ignores_approved:
  "\<not> AUTO_TRADE ex_manual \<and> arb_approved ex_manual = [(''7-0'', Some ex_opp)]
   \<and> consumeFills ex_env (consumeOpportunities ex_env ex_manual) = ex_manual"
  by (simp add: consumeOpportunities_def consumeFills_def tradingEnabled_def ex_manual_def)

text \<open>
  Claim C1, amended. The input selection is a function of the toggle: with
  auto-trade off a consume cycle reads no stream and changes nothing; with it on
  (and the reader connected) the executor takes the next entries, at most 20, from
  \<open>arb.opportunities\<close> and acknowledges each of them there. In neither mode does it
  read \<open>arb.approved\<close>.
\<close>

theorem executor_stream_selection:
  "(\<not> AUTO_TRADE s \<longrightarrow> consumeOpportunities env s = s \<and> consumeFills env s = s)
   \<and> arb_approved (consumeOpportunities env s) = arb_approved s
   \<and> (AUTO_TRADE s \<and> oppReady s \<longrightarrow>
        arb_opportunities (consumeOpportunities env s) = drop 20 (arb_opportunities s)
        \<and> acked (consumeOpportunities env s)
            = acked s @ map (\<lambda>m. (''arb.opportunities'', fst m)) (take 20 (arb_opportunities s)))"
proof (intro conjI impI)
  assume "\<not> AUTO_TRADE s"
  then show "consumeOpportunities env s = s"
    by (simp add: consumeOpportunities_def tradingEnabled_def)
next
  assume "\<not> AUTO_TRADE s"
  then show "consumeFills env s = s"
    by (simp add: consumeFills_def tradingEnabled_def)
next
  show "arb_approved (consumeOpportunities env s) = arb_approved s"
    by (simp add: consumeOpportunities_def Let_def foldl_handleOpportunity_frame)
next
  assume a: "AUTO_TRADE s \<and> oppReady s"
  show "arb_opportunities (consumeOpportunities env s) = drop 20 (arb_opportunities s)"
  proof (cases "take 20 (arb_opportunities s) = []")
    case True
    then have "arb_opportunities s = []" by auto
    with a show ?thesis by (simp add: consumeOpportunities_def tradingEnabled_def)
  next
    case False
    with a show ?thesis
      by (simp add: consumeOpportunities_def tradingEnabled_def Let_def foldl_handleOpportunity_frame)
  qed
next
  assume a: "AUTO_TRADE s \<and> oppReady s"
  show "acked (consumeOpportunities env s)
          = acked s @ map (\<lambda>m. (''arb.opportunities'', fst m)) (take 20 (arb_opportunities s))"
  proof (cases "take 20 (arb_opportunities s) = []")
    case True
    with a show ?thesis by (simp add: consumeOpportunities_def tradingEnabled_def)
  next
    case False
    with a show ?thesis
      by (simp add: consumeOpportunities_def tradingEnabled_def Let_def foldl_handleOpportunity_frame)
  qed
qed

theorem executor_stream_selection_witness:
  "\<not> AUTO_TRADE ex_manual \<and> consumeOpportunities ex_env ex_manual = ex_manual
   \<and> AUTO_TRADE ex_auto \<and> oppReady ex_auto
   \<and> arb_opportunities (consumeOpportunities ex_env ex_auto) = []
   \<and> acked (consumeOpportunities ex_env ex_auto) = [(''arb.opportunities'', ''1-0'')]"
proof -
  have m: "\<not> AUTO_TRADE ex_manual" by (simp add: ex_manual_def)
  have a: "AUTO_TRADE ex_auto \<and> oppReady ex_auto" by (simp add: ex_auto_def)
  from executor_stream_selection [of ex_manual ex_env] m
  have "consumeOpportunities ex_env ex_manual = ex_manual" by blast
  moreover from executor_stream_selection [of ex_auto ex_env] a
  have "arb_opportunities (consumeOpportunities ex_env ex_auto) = drop 20 (arb_opportunities ex_auto)
        \<and> acked (consumeOpportunities ex_env ex_auto)
            = acked ex_auto @ map (\<lambda>m. (''arb.opportunities'', fst m)) (take 20 (arb_opportunities ex_auto))"
    by blast
  ultimately show ?thesis using m a by (simp add: ex_auto_def)
qed

section \<open>Router-executor: trade emission\<close>

text \<open>
  \<open>emitTrade\<close> either returns without a change or throws, so no run of the fill
  consumer ever appends to \<open>arb.trades\<close>.
\<close>

lemma emitTrade_unchanged: "emitTrade env s opp fs = Inr s' \<Longrightarrow> s' = s"
  by (auto simp: emitTrade_def Let_def split: if_splits)

lemma finish_trade_trades: "arb_trades (snd (finish_trade env s c st i)) = arb_trades s"
  by (auto simp: finish_trade_def xack_def split: sum.splits dest: emitTrade_unchanged)

lemma handleFill_trades: "arb_trades (snd (handleFill env s m)) = arb_trades s"
  by (simp add: handleFill_def finish_trade_trades xack_def sendOrder_frame Let_def
      split: option.split list.split prod.split)

lemma foldl_handleFill_trades:
  "arb_trades (foldl (\<lambda>s' m. snd (handleFill env s' m)) s ms) = arb_trades s"
  by (induction ms arbitrary: s) (simp_all add: handleFill_trades)

lemma consumeFills_trades: "arb_trades (consumeFills env s) = arb_trades s"
  by (simp add: consumeFills_def foldl_handleFill_trades Let_def)

lemma pnl_example:
  "computePnlFromFills (\<lambda>s. NaN) ex_opp
     [Some (ex_fill_sell 1), Some ex_fill_buy] = 1"
  by (simp add: computePnlFromFills_def ex_opp_def ex_fill_sell_def ex_fill_buy_def pnl_step_def Let_def side_is_def
      ex_buy_def ex_sell_def upper_SELL upper_BUY str_or_empty_def js_or_def cost_num_def
      num_half_def)

lemma ex_exec_leg1_inflight:
  "inflight ex_exec_leg1 ''opp-1''
     = Some (ex_entry\<lparr> ie_fills := [Some (ex_fill_sell 1)] \<rparr>)
   \<and> AUTO_TRADE ex_exec_leg1 \<and> arb_trades ex_exec_leg1 = []"
  by (simp add: ex_exec_leg1_def handleFill_def ex_fill_sell_def ex_fill_buy_def ex_exec_def ex_entry_def ex_env_def
      set_fill_def sendOrder_def tradingEnabled_def xack_def Let_def)

text \<open>
  Claim C2 on the code. The Opportunity \<open>ex_opp\<close> is inflight, its SELL leg has
  filled at 101 and the fill of its BUY leg at 100 arrives: the realised PnL is 1,
  above \<open>MIN_REALIZED_PNL = 0\<close>, and auto-trade is on. \<open>emitTrade\<close> throws, the loop
  body catches the error, \<open>arb.trades\<close> stays empty and the entry stays inflight.
\<close>

theorem profitable_trade_is_not_emitted:
  "computePnlFromFills (str_num ex_env) ex_opp
     [Some (ex_fill_sell 1), Some ex_fill_buy] = 1
   \<and> MIN_REALIZED_PNL ex_env = 0
   \<and> fst (handleFill ex_env ex_exec_leg1 (''9-1'', Some ex_fill_buy))
       = Thrown ReferenceError
   \<and> arb_trades (snd (handleFill ex_env ex_exec_leg1 (''9-1'', Some ex_fill_buy))) = []
   \<and> inflight (snd (handleFill ex_env ex_exec_leg1 (''9-1'', Some ex_fill_buy))) ''opp-1''
       \<noteq> None"
proof -
  have e: "str_num ex_env = (\<lambda>s. NaN)" "MIN_REALIZED_PNL ex_env = 0"
    by (simp_all add: ex_env_def)
  have p: "fill_payload ex_fill_buy
             = Some \<lparr> fp_corrId = Some ''opp-1'', fp_legIndex = Some 1,
                      fp_exchange = Some ''binance'', fp_instrumentId = Some ''BTCUSDT'',
                      fp_side = Some ''BUY'', fp_px = JNum 100,
                      fp_requestedSize = JNum 1, fp_filledSize = JNum 1, fp_mode = None \<rparr>"
    by (simp add: ex_fill_buy_def)
  have f: "set_fill [Some (ex_fill_sell 1)] (Some (Suc 0)) ex_fill_buy
             = [Some (ex_fill_sell 1), Some ex_fill_buy]"
    by (simp add: set_fill_def)
  have o: "ie_opp ex_entry = ex_opp" "ie_fills ex_entry = []"
    by (simp_all add: ex_entry_def)
  show ?thesis
    using ex_exec_leg1_inflight
    by (simp add: e f p o pnl_example handleFill_def finish_trade_def emitTrade_def
        tradingEnabled_def xack_def Let_def)
qed

section \<open>Router-executor: toggles\<close>

lemma parseBool_false: "parseBool ''false'' d = False"
  by (simp add: parseBool_def trim_def is_space_def toLowerCase_def lower_char_def)

text \<open>
  Claim C3 on the code. With \<open>ex_opp\<close> inflight and auto-trade on, a
  \<open>POST /toggles\<close> with \<open>autoTrade: false\<close> turns auto-trade off and keeps the
  inflight entry, and the next \<open>refreshToggles\<close> sees no change and keeps it too;
  the same edge observed by \<open>refreshToggles\<close> alone clears the table.
\<close>

theorem post_toggles_keeps_inflight:
  "AUTO_TRADE ex_exec \<and> inflight ex_exec ''opp-1'' = Some ex_entry
   \<and> \<not> AUTO_TRADE (post_toggles ex_exec \<lparr> tb_autoTrade = JBool False, tb_mode = None \<rparr>)
   \<and> inflight (post_toggles ex_exec \<lparr> tb_autoTrade = JBool False, tb_mode = None \<rparr>) ''opp-1''
       = Some ex_entry
   \<and> inflight (refreshToggles (post_toggles ex_exec \<lparr> tb_autoTrade = JBool False, tb_mode = None \<rparr>))
         ''opp-1'' = Some ex_entry
   \<and> inflight (refreshToggles (ex_exec\<lparr> kv_autoTrade := Some ''false'' \<rparr>)) ''opp-1'' = None"
  by (simp add: post_toggles_def refreshToggles_def ex_exec_def parseBool_false Let_def)

section \<open>Router-executor: zero fill on leg 0\<close>

text \<open>
  Claim C7. When the loop body of \<open>consumeFills\<close> handles a Fill with
  \<open>legIndex = 0\<close> and \<open>filledSize = 0\<close> whose \<open>corrId\<close> is inflight, it takes the
  abort branch: the entry is removed, no Order is sent, no Trade is written, and
  the Fill is acknowledged.
\<close>

theorem zero_fill_aborts:
  assumes "fill_payload fl = Some p" and "fp_corrId p = Some c" and "inflight s c = Some st"
    and "fp_legIndex p = Some 0" and "fp_filledSize p = JNum 0"
  shows "fst (handleFill env s (i, Some fl)) = Aborted
         \<and> inflight (snd (handleFill env s (i, Some fl))) c = None
         \<and> orders_new (snd (handleFill env s (i, Some fl))) = orders_new s
         \<and> arb_trades (snd (handleFill env s (i, Some fl))) = arb_trades s
         \<and> acked (snd (handleFill env s (i, Some fl))) = acked s @ [(''orders.fills'', i)]"
  using assms by (simp add: handleFill_def xack_def Let_def)

theorem zero_fill_aborts_witness:
  "inflight ex_exec ''opp-1'' = Some ex_entry
   \<and> fst (handleFill ex_env ex_exec (''9-0'', Some (ex_fill_sell 0))) = Aborted
   \<and> inflight (snd (handleFill ex_env ex_exec (''9-0'', Some (ex_fill_sell 0)))) ''opp-1'' = None
   \<and> orders_new (snd (handleFill ex_env ex_exec (''9-0'', Some (ex_fill_sell 0)))) = []
   \<and> arb_trades (snd (handleFill ex_env ex_exec (''9-0'', Some (ex_fill_sell 0)))) = []"
proof -
  define p where "p = \<lparr> fp_corrId = Some ''opp-1'', fp_legIndex = Some 0,
                        fp_exchange = Some ''bybit'', fp_instrumentId = Some ''BTCUSDT'',
                        fp_side = Some ''SELL'', fp_px = JNum 101,
                        fp_requestedSize = JNum 1, fp_filledSize = JNum 0, fp_mode = None \<rparr>"
  have h1: "fill_payload (ex_fill_sell 0) = Some p" by (simp add: ex_fill_sell_def p_def)
  have h2: "fp_corrId p = Some ''opp-1''" by (simp add: p_def)
  have h3: "inflight ex_exec ''opp-1'' = Some ex_entry" by (simp add: ex_exec_def)
  have h4: "fp_legIndex p = Some 0" by (simp add: p_def)
  have h5: "fp_filledSize p = JNum 0" by (simp add: p_def)
  from zero_fill_aborts [OF h1 h2 h3 h4 h5, of ex_env "''9-0''"] h3
  show ?thesis by (simp add: ex_exec_def)
qed

section \<open>Order simulator\<close>






section \<open>Trade assembler\<close>

lemma upsert_first:
  assumes "fill_payload f = Some p" "fp_corrId p = Some c" "c \<noteq> []" "pending a c = None"
  shows "\<exists>r. upsertFill now a f = (None, a\<lparr> pending := (pending a)(c \<mapsto> r) \<rparr>) \<and> pr_legs r = [f]"
  using assms by (auto simp: upsertFill_def str_or_empty_def Let_def)

lemma upsert_second:
  assumes "fill_payload f = Some p" "fp_corrId p = Some c" "c \<noteq> []" "pending a c = Some r" "pr_legs r = [g]"
  shows "\<exists>r'. upsertFill now a f = (Some r', a\<lparr> pending := (pending a)(c := None) \<rparr>) \<and> pr_legs r' = [g, f]"
  using assms by (auto simp: upsertFill_def str_or_empty_def Let_def)

lemma asm_first:
  assumes "fill_payload f = Some p" "fp_corrId p = Some c" "c \<noteq> []" "pending a c = None"
  shows "\<exists>r. asm_step sn now a (i, Some f)
            = a\<lparr> pending := (pending a)(c \<mapsto> r), asm_acked := asm_acked a @ [i] \<rparr> \<and> pr_legs r = [f]"
proof -
  from upsert_first [OF assms, of now] obtain r where
    "upsertFill now a f = (None, a\<lparr> pending := (pending a)(c \<mapsto> r) \<rparr>)" "pr_legs r = [f]" by blast
  then show ?thesis by (auto simp: asm_step_def Let_def)
qed


lemma asm_second:
  assumes "fill_payload f = Some p" "fp_corrId p = Some c" "c \<noteq> []" "pending a c = Some r" "pr_legs r = [g]"
  shows "\<exists>r'. pr_legs r' = [g, f] \<and> asm_step sn now a (i, Some f)
            = (case computeTradeFromFills sn r' of
                 None \<Rightarrow> a\<lparr> pending := (pending a)(c := None), asm_acked := asm_acked a @ [i] \<rparr>
               | Some tr \<Rightarrow> a\<lparr> pending := (pending a)(c := None),
                                trades_db := trades_db a @ [tr],
                                asm_trades := asm_trades a @
                                   [\<lparr> tm_id = i, tm_ts = t_ts tr, tm_type = ''trade'', tm_payload = tr \<rparr>],
                                tradesBuilt := Suc (tradesBuilt a),
                                asm_acked := asm_acked a @ [i] \<rparr>)"
proof -
  from upsert_second [OF assms, of now] obtain r' where
    r': "upsertFill now a f = (Some r', a\<lparr> pending := (pending a)(c := None) \<rparr>)" "pr_legs r' = [g, f]" by blast
  then show ?thesis by (auto simp: asm_step_def Let_def split: option.split)
qed

lemma compute_same_side:
  assumes "pr_legs r = [f1, f2]"
    and "fill_payload f1 = Some p1" "fill_payload f2 = Some p2"
    and "(toUpperCase (str_or_empty (fp_side p1)) = ''BUY''
            \<and> toUpperCase (str_or_empty (fp_side p2)) = ''BUY'')
         \<or> (toUpperCase (str_or_empty (fp_side p1)) = ''SELL''
            \<and> toUpperCase (str_or_empty (fp_side p2)) = ''SELL'')"
  shows "computeTradeFromFills sn r = None"
  using assms
  by (auto simp: computeTradeFromFills_def asm_leg_of_def Let_def)




text \<open>
  Claim C10. Let no entry be pending for \<open>corrId = c\<close>, and let two Fills for
  \<open>c\<close> whose sides both upper-case to BUY, or both to SELL, reach the assembler.
  After the second one the pending entry for \<open>c\<close> is gone, both Fills are
  acknowledged, and nothing was written to \<open>arb.trades\<close> or the store. A third
  Fill for \<open>c\<close> starts a new pending entry that holds that Fill alone, and emits
  nothing.
\<close>

theorem assembler_discards_same_side:
  assumes "pending a c = None" and "c \<noteq> []"
    and "fill_payload f1 = Some p1" and "fill_payload f2 = Some p2" and "fill_payload f3 = Some p3"
    and "fp_corrId p1 = Some c" and "fp_corrId p2 = Some c" and "fp_corrId p3 = Some c"
    and "(toUpperCase (str_or_empty (fp_side p1)) = ''BUY''
            \<and> toUpperCase (str_or_empty (fp_side p2)) = ''BUY'')
         \<or> (toUpperCase (str_or_empty (fp_side p1)) = ''SELL''
            \<and> toUpperCase (str_or_empty (fp_side p2)) = ''SELL'')"
  shows "pending (asm_step sn t2 (asm_step sn t1 a (i1, Some f1)) (i2, Some f2)) c = None
       \<and> asm_trades (asm_step sn t2 (asm_step sn t1 a (i1, Some f1)) (i2, Some f2)) = asm_trades a
       \<and> trades_db (asm_step sn t2 (asm_step sn t1 a (i1, Some f1)) (i2, Some f2)) = trades_db a
       \<and> asm_acked (asm_step sn t2 (asm_step sn t1 a (i1, Some f1)) (i2, Some f2))
           = asm_acked a @ [i1, i2]
       \<and> (\<exists>r3. pending (asm_step sn t3 (asm_step sn t2 (asm_step sn t1 a (i1, Some f1)) (i2, Some f2))
                          (i3, Some f3)) c = Some r3
                \<and> pr_legs r3 = [f3])
       \<and> asm_trades (asm_step sn t3 (asm_step sn t2 (asm_step sn t1 a (i1, Some f1)) (i2, Some f2))
                          (i3, Some f3)) = asm_trades a"
proof -
  obtain r where a1: "asm_step sn t1 a (i1, Some f1)
            = a\<lparr> pending := (pending a)(c \<mapsto> r), asm_acked := asm_acked a @ [i1] \<rparr>"
      and r: "pr_legs r = [f1]"
    using asm_first [OF assms(3,6,2,1), of sn t1 i1] by blast
  let ?a1 = "a\<lparr> pending := (pending a)(c \<mapsto> r), asm_acked := asm_acked a @ [i1] \<rparr>"
  have pend: "pending ?a1 c = Some r" by simp
  obtain r' where r': "pr_legs r' = [f1, f2]"
      and a2: "asm_step sn t2 ?a1 (i2, Some f2)
            = (case computeTradeFromFills sn r' of
                 None \<Rightarrow> ?a1\<lparr> pending := (pending ?a1)(c := None), asm_acked := asm_acked ?a1 @ [i2] \<rparr>
               | Some tr \<Rightarrow> ?a1\<lparr> pending := (pending ?a1)(c := None),
                                trades_db := trades_db ?a1 @ [tr],
                                asm_trades := asm_trades ?a1 @
                                   [\<lparr> tm_id = i2, tm_ts = t_ts tr, tm_type = ''trade'', tm_payload = tr \<rparr>],
                                tradesBuilt := Suc (tradesBuilt ?a1),
                                asm_acked := asm_acked ?a1 @ [i2] \<rparr>)"
    using asm_second [OF assms(4,7,2) pend r, of sn t2 i2] by blast
  have none: "computeTradeFromFills sn r' = None"
    by (rule compute_same_side [OF r' assms(3,4,9)])
  let ?a2 = "?a1\<lparr> pending := (pending ?a1)(c := None), asm_acked := asm_acked ?a1 @ [i2] \<rparr>"
  have a2': "asm_step sn t2 (asm_step sn t1 a (i1, Some f1)) (i2, Some f2) = ?a2"
    by (simp add: a1 a2 none)
  have pend2: "pending ?a2 c = None" by simp
  obtain r3 where a3: "asm_step sn t3 ?a2 (i3, Some f3)
            = ?a2\<lparr> pending := (pending ?a2)(c \<mapsto> r3), asm_acked := asm_acked ?a2 @ [i3] \<rparr>"
      and r3: "pr_legs r3 = [f3]"
    using asm_first [OF assms(5,8,2) pend2, of sn t3 i3] by blast
  show ?thesis
    unfolding a2' a3 using r3 by simp
qed

theorem assembler_discards_same_side_witness:
  "pending ex_asm ''opp-1'' = None
   \<and> pending (asm_step (\<lambda>s. NaN) 7 (asm_step (\<lambda>s. NaN) 6 ex_asm (''9-0'', Some ex_fill_buy))
                 (''9-1'', Some ex_fill_buy)) ''opp-1'' = None
   \<and> asm_trades (asm_step (\<lambda>s. NaN) 7 (asm_step (\<lambda>s. NaN) 6 ex_asm (''9-0'', Some ex_fill_buy))
                 (''9-1'', Some ex_fill_buy)) = []
   \<and> asm_acked (asm_step (\<lambda>s. NaN) 7 (asm_step (\<lambda>s. NaN) 6 ex_asm (''9-0'', Some ex_fill_buy))
                 (''9-1'', Some ex_fill_buy)) = [''9-0'', ''9-1'']
   \<and> (\<exists>r3. pending (asm_step (\<lambda>s. NaN) 8
                        (asm_step (\<lambda>s. NaN) 7 (asm_step (\<lambda>s. NaN) 6 ex_asm (''9-0'', Some ex_fill_buy))
                           (''9-1'', Some ex_fill_buy))
                        (''9-2'', Some (ex_fill_sell 1))) ''opp-1'' = Some r3
           \<and> pr_legs r3 = [ex_fill_sell 1])"
proof -
  define pb where "pb = \<lparr> fp_corrId = Some ''opp-1'', fp_legIndex = Some 1,
                          fp_exchange = Some ''binance'', fp_instrumentId = Some ''BTCUSDT'',
                          fp_side = Some ''BUY'', fp_px = JNum 100,
                          fp_requestedSize = JNum 1, fp_filledSize = JNum 1, fp_mode = None \<rparr>"
  define ps where "ps = \<lparr> fp_corrId = Some ''opp-1'', fp_legIndex = Some 0,
                          fp_exchange = Some ''bybit'', fp_instrumentId = Some ''BTCUSDT'',
                          fp_side = Some ''SELL'', fp_px = JNum 101,
                          fp_requestedSize = JNum 1, fp_filledSize = JNum 1, fp_mode = None \<rparr>"
  have h1: "pending ex_asm ''opp-1'' = None" by (simp add: ex_asm_def)
  have h2: "''opp-1'' \<noteq> []" by simp
  have h3: "fill_payload ex_fill_buy = Some pb" by (simp add: ex_fill_buy_def pb_def)
  have h5: "fill_payload (ex_fill_sell 1) = Some ps" by (simp add: ex_fill_sell_def ps_def)
  have h6: "fp_corrId pb = Some ''opp-1''" by (simp add: pb_def)
  have h8: "fp_corrId ps = Some ''opp-1''" by (simp add: ps_def)
  have h9: "(toUpperCase (str_or_empty (fp_side pb)) = ''BUY''
               \<and> toUpperCase (str_or_empty (fp_side pb)) = ''BUY'')
            \<or> (toUpperCase (str_or_empty (fp_side pb)) = ''SELL''
               \<and> toUpperCase (str_or_empty (fp_side pb)) = ''SELL'')"
    by (simp add: pb_def str_or_empty_def upper_BUY)
  have e: "asm_trades ex_asm = []" "asm_acked ex_asm = []" by (simp_all add: ex_asm_def)
  from assembler_discards_same_side [OF h1 h2 h3 h3 h5 h6 h6 h8 h9,
      of "\<lambda>s. NaN" 7 6 "''9-0''" "''9-1''" 8 "''9-2''"]
  show ?thesis unfolding e using h1 by simp
qed


section \<open>Risk engine\<close>

lemma risk_safeNum_finite: "\<exists>x. risk_safeNum sn v (Fin d) = Fin x"
  by (cases "toNumber sn v") (auto simp: risk_safeNum_def)

lemma foldl_size_finite:
  "\<exists>x. foldl (\<lambda>a b. num_add a (risk_safeNum sn (f b) (Fin 0))) (Fin a0) ls = Fin x"
proof (induction ls arbitrary: a0)
  case Nil
  then show ?case by simp
next
  case (Cons l ls)
  obtain y where "risk_safeNum sn (f l) (Fin 0) = Fin y" using risk_safeNum_finite by blast
  with Cons.IH [of "a0 + y"] show ?case by simp
qed




text \<open>A rejection carries one of the five reason tags of the policy.\<close>

lemma evaluateRisk_reason:
  "(ok (evaluateRisk sn cfg opp) \<longrightarrow> reason (evaluateRisk sn cfg opp) = ''approved'')
   \<and> (\<not> ok (evaluateRisk sn cfg opp) \<longrightarrow>
         reason (evaluateRisk sn cfg opp) \<in> set [''paper_mode_not_allowed'', ''missing_side'',
            ''size_exceeds_cap'', ''edge_below_threshold'', ''net_below_threshold''])"
  unfolding evaluateRisk_def Let_def
  by (simp add: rejected_def)








section \<open>Scanner\<close>








end
